theory Spec2Isabelle
  imports Main
begin

section \<open>Data model of \<open>app.js\<close>\<close>

text \<open>
  A Mongo \<open>ObjectId\<close> is represented by its canonical rendering, the string that
  \<open>id.toString()\<close> yields. Route parameters, body fields and token payloads carry
  plain strings; Mongoose turns such a string into an \<open>ObjectId\<close> by casting, which may
  fail with a \<open>CastError\<close>. The cast belongs to the storage library and is a parameter
  of the model (\<open>castObjectId\<close> below).
\<close>

datatype objectId = ObjectId string

fun toString :: "objectId \<Rightarrow> string" where
  "toString (ObjectId h) = h"

text \<open>
  \<open>carSchema\<close>: \<open>Number\<close> fields are integers here, \<open>images\<close> is the list of file
  names. The fields \<open>model\<close> and \<open>make\<close> carry a prefix.
\<close>

record car =
  car_id :: objectId
  car_model :: string
  car_make :: string
  year :: int
  color :: string
  miles :: "int option"
  fueltype :: "string option"
  gearbox :: "string option"
  city :: "string option"
  price :: int
  images :: "string list"
  armored :: bool
  carOwnerEmail :: "string option"

text \<open>
  \<open>userSchema\<close>. A field that a query deselects (\<open>.select("-password")\<close>) is absent from
  the fetched document, hence \<open>password\<close> is optional in a fetched record.
\<close>

record user =
  user_id :: objectId
  name :: string
  email :: string
  password :: "string option"
  passwordConfirm :: "string option"
  favorites :: "objectId list"

text \<open>The two collections of the database.\<close>

record db =
  users :: "objectId \<rightharpoonup> user"
  cars :: "objectId \<rightharpoonup> car"

subsection \<open>Session tokens\<close>

text \<open>
  The payload signed at login is \<open>{ id: user._id }\<close> together with the expiry instant
  the token library adds. A token on the wire is either a string that does not parse or
  a payload with its signature.
\<close>

record payload =
  pl_id :: string
  pl_exp :: int

datatype token = Unparsable string | Signed payload string

datatype verificationError = Malformed | BadSignature | Expired

subsection \<open>Errors thrown inside handlers\<close>

text \<open>
  \<open>JsonWebTokenError\<close> covers every failure of \<open>jwt.verify\<close> (the expiry error is a
  subclass of it). \<open>CastError\<close> is a string that is no \<open>ObjectId\<close>; \<open>StorageError\<close> is a
  failed read or write of the database.
\<close>

datatype exn = JsonWebTokenError verificationError | CastError | StorageError

subsection \<open>Environment of a request\<close>

text \<open>
  What a handler depends on besides the database and the request: the library's cast,
  the keyed signature of the token library, the process configuration
  (\<open>JWT_SECRET\<close>, \<open>JWT_EXPIRE_TIME\<close> in seconds), the clock, and whether the storage
  collaborator fails on a read (\<open>findFails\<close>) or on a write (\<open>saveFails\<close>).
\<close>

record env =
  castObjectId :: "string \<Rightarrow> objectId option"
  mac :: "string \<Rightarrow> payload \<Rightarrow> string"
  JWT_SECRET :: string
  JWT_EXPIRE_TIME :: int
  now :: int
  findFails :: bool
  saveFails :: bool

subsection \<open>Requests and responses\<close>

text \<open>
  \<open>cookies_jwt\<close> is \<open>req.cookies.jwt\<close>; \<open>None\<close> stands for a missing (or empty, hence
  falsy) cookie. \<open>params_carId\<close> is \<open>req.params.carId\<close>, \<open>body_userId\<close> is
  \<open>req.body.userId\<close>, and \<open>req_user\<close> is \<open>req.user\<close>, the identity a middleware may
  attach.
\<close>

record request =
  cookies_jwt :: "token option"
  params_carId :: string
  body_userId :: string
  req_user :: "user option"

datatype json =
    Message string
  | MessageFavorites string "objectId list"
  | FavoriteCars "car list"
  | CurrentUser user
  | MessageCar string car
  | MessageUser string user

record response =
  status :: nat
  body :: json

definition res_json :: "json \<Rightarrow> response" where
  "res_json j = \<lparr>status = 200, body = j\<rparr>"

definition res_status_json :: "nat \<Rightarrow> json \<Rightarrow> response" where
  "res_status_json s j = \<lparr>status = s, body = j\<rparr>"

section \<open>Storage operations\<close>

text \<open>
  \<open>User.findById(s)\<close>: rejects when the storage fails or when \<open>s\<close> is no \<open>ObjectId\<close>;
  otherwise resolves to the document or to \<open>null\<close>.
\<close>

definition findById :: "env \<Rightarrow> db \<Rightarrow> string \<Rightarrow> exn + user option" where
  "findById E d s =
     (if findFails E then Inl StorageError
      else case castObjectId E s of
             None \<Rightarrow> Inl CastError
           | Some i \<Rightarrow> Inr (users d i))"

text \<open>\<open>user.save()\<close>: one write of the whole document, or a rejection that writes nothing.\<close>

definition save :: "env \<Rightarrow> db \<Rightarrow> user \<Rightarrow> exn + db" where
  "save E d u =
     (if saveFails E then Inl StorageError
      else Inr (d\<lparr>users := (users d)(user_id u \<mapsto> u)\<rparr>))"

section \<open>Favoriting a car: \<open>PATCH /favoriteCar/:carId\<close>\<close>

text \<open>
  \<open>user.favorites.includes(carId)\<close> on a Mongoose array compares with loose equality,
  so an \<open>ObjectId\<close> element equals the string \<open>carId\<close> when its rendering does.
\<close>

definition includes_str :: "objectId list \<Rightarrow> string \<Rightarrow> bool" where
  "includes_str favs carId = (carId \<in> toString ` set favs)"

text \<open>
  Lines 262 to 270: the in-memory toggle. \<open>push\<close> casts the string it is given and throws
  when the cast fails.
\<close>

definition toggleFavorites :: "env \<Rightarrow> objectId list \<Rightarrow> string \<Rightarrow> exn + objectId list" where
  "toggleFavorites E favs carId =
     (let isFavorite = includes_str favs carId in
      if isFavorite then Inr (filter (\<lambda>i. toString i \<noteq> carId) favs)
      else case castObjectId E carId of
             None \<Rightarrow> Inl CastError
           | Some i \<Rightarrow> Inr (favs @ [i]))"

text \<open>
  The handler. Every exception raised inside \<open>try\<close> reaches the one \<open>catch\<close>, which
  answers 500. The result is the response and the database after the request.
\<close>

definition error500 :: response where
  "error500 = res_status_json 500 (Message ''Error updating favorite status'')"

definition favoriteCar :: "env \<Rightarrow> db \<Rightarrow> request \<Rightarrow> response \<times> db" where
  "favoriteCar E d req =
     (let carId = params_carId req; userId = body_userId req in
      case findById E d userId of
        Inl e \<Rightarrow> (error500, d)
      | Inr None \<Rightarrow> (res_status_json 404 (Message ''User not found''), d)
      | Inr (Some u) \<Rightarrow>
          (case toggleFavorites E (favorites u) carId of
             Inl e \<Rightarrow> (error500, d)
           | Inr favs \<Rightarrow>
               (let u' = u\<lparr>favorites := favs\<rparr> in
                case save E d u' of
                  Inl e \<Rightarrow> (error500, d)
                | Inr d' \<Rightarrow> (res_json (MessageFavorites ''Car favorited'' (favorites u')), d'))))"

text \<open>A sequence of toggle requests, each with the environment it runs in.\<close>

fun favoriteCarAll :: "db \<Rightarrow> (env \<times> request) list \<Rightarrow> db" where
  "favoriteCarAll d [] = d"
| "favoriteCarAll d ((E, req) # rest) = favoriteCarAll (snd (favoriteCar E d req)) rest"

section \<open>Token service\<close>

text \<open>
  Modelled from the spec: \<open>jwt.sign\<close> and \<open>jwt.verify\<close> belong to the token library,
  which is not part of the sources. Section 4.1: \<open>issue\<close> produces a signed token
  encoding the identity id with an expiry set to now + ttl; the signature is a
  deterministic keyed function of key and payload.
\<close>

definition issue :: "env \<Rightarrow> string \<Rightarrow> string \<Rightarrow> int \<Rightarrow> token" where
  "issue E identityId secretKey ttl =
     (let p = \<lparr>pl_id = identityId, pl_exp = now E + ttl\<rparr>
      in Signed p (mac E secretKey p))"

text \<open>
  Modelled from the spec: \<open>jwt.verify\<close> of the token library. Section 4.1: \<open>verify\<close> fails
  with \<open>Malformed\<close> if the token cannot be parsed, \<open>BadSignature\<close> if the signature does
  not match, \<open>Expired\<close> if past expiry; on success it returns the embedded identity id.
\<close>

definition verify :: "env \<Rightarrow> token \<Rightarrow> string \<Rightarrow> verificationError + string" where
  "verify E t secretKey =
     (case t of
        Unparsable s \<Rightarrow> Inl Malformed
      | Signed p sg \<Rightarrow>
          if sg \<noteq> mac E secretKey p then Inl BadSignature
          else if pl_exp p < now E then Inl Expired
          else Inr (pl_id p))"

text \<open>
  Lines 362 to 364 of \<open>POST /login\<close>: the token for the user found, signed with the
  configured secret and lifetime.
\<close>

definition login_sign :: "env \<Rightarrow> user \<Rightarrow> token" where
  "login_sign E u = issue E (toString (user_id u)) (JWT_SECRET E) (JWT_EXPIRE_TIME E)"

text \<open>\<open>jwt.verify(token, process.env.JWT_SECRET)\<close> inside a handler: a failure is thrown.\<close>

definition jwt_verify :: "env \<Rightarrow> token \<Rightarrow> exn + string" where
  "jwt_verify E t =
     (case verify E t (JWT_SECRET E) of
        Inl e \<Rightarrow> Inl (JsonWebTokenError e)
      | Inr i \<Rightarrow> Inr i)"

section \<open>\<open>GET /getUser\<close>\<close>

text \<open>
  The body of \<open>try\<close>; the test \<open>!decoded\<close> never fires, since a successful
  verification returns the payload object. The fetch has no field selection.
\<close>

definition getUser_try :: "env \<Rightarrow> db \<Rightarrow> token \<Rightarrow> exn + response" where
  "getUser_try E d t =
     (case jwt_verify E t of
        Inl e \<Rightarrow> Inl e
      | Inr decoded_id \<Rightarrow>
          (case findById E d decoded_id of
             Inl e \<Rightarrow> Inl e
           | Inr None \<Rightarrow>
               Inr (res_status_json 404
                      (Message ''The user belonging to this token no longer exists''))
           | Inr (Some currentUser) \<Rightarrow> Inr (res_json (CurrentUser currentUser))))"

definition getUser :: "env \<Rightarrow> db \<Rightarrow> request \<Rightarrow> response" where
  "getUser E d req =
     (case cookies_jwt req of
        None \<Rightarrow> res_json (Message ''Not authenticated'')
      | Some t \<Rightarrow>
          (case getUser_try E d t of
             Inl e \<Rightarrow> res_status_json 401 (Message ''Invalid or expired token'')
           | Inr r \<Rightarrow> r))"

section \<open>\<open>GET /favorites\<close>\<close>

text \<open>\<open>.select("-password")\<close>: the fetched document lacks the field.\<close>

definition select_minus_password :: "user \<Rightarrow> user" where
  "select_minus_password u = u\<lparr>password := None\<rparr>"

text \<open>Line 294: the first fetch, by the id of the token, with the password deselected.\<close>

definition favorites_first_fetch :: "env \<Rightarrow> db \<Rightarrow> string \<Rightarrow> exn + user option" where
  "favorites_first_fetch E d decoded_id =
     (case findById E d decoded_id of
        Inl e \<Rightarrow> Inl e
      | Inr uo \<Rightarrow> Inr (map_option select_minus_password uo))"

text \<open>
  Line 300: the second fetch, by the \<open>ObjectId\<close> of the first document, with no field
  selection. \<open>populate\<close> is applied to its result by the handler.
\<close>

definition favorites_refetch :: "env \<Rightarrow> db \<Rightarrow> objectId \<Rightarrow> exn + user option" where
  "favorites_refetch E d i =
     (if findFails E then Inl StorageError else Inr (users d i))"

text \<open>
  \<open>.populate("favorites")\<close>: each id is replaced by the car it refers to; an id with no car
  is dropped.
\<close>

definition populate :: "db \<Rightarrow> objectId list \<Rightarrow> car list" where
  "populate d favs = List.map_filter (cars d) favs"

definition favorites_try :: "env \<Rightarrow> db \<Rightarrow> token \<Rightarrow> exn + response" where
  "favorites_try E d t =
     (case jwt_verify E t of
        Inl e \<Rightarrow> Inl e
      | Inr decoded_id \<Rightarrow>
          (case favorites_first_fetch E d decoded_id of
             Inl e \<Rightarrow> Inl e
           | Inr None \<Rightarrow> Inr (res_status_json 401 (Message ''User not found''))
           | Inr (Some requser) \<Rightarrow>
               (case favorites_refetch E d (user_id requser) of
                  Inl e \<Rightarrow> Inl e
                | Inr None \<Rightarrow> Inr (res_status_json 404 (Message ''User not found''))
                | Inr (Some u) \<Rightarrow> Inr (res_json (FavoriteCars (populate d (favorites u)))))))"

fun favorites_catch :: "exn \<Rightarrow> response" where
  "favorites_catch (JsonWebTokenError e) = res_status_json 401 (Message ''Invalid token'')"
| "favorites_catch e = res_status_json 500 (Message ''Error fetching favorites'')"

definition favoritesHandler :: "env \<Rightarrow> db \<Rightarrow> request \<Rightarrow> response" where
  "favoritesHandler E d req =
     (case cookies_jwt req of
        None \<Rightarrow> res_json (Message ''JWT must be provided. Please log in.'')
      | Some t \<Rightarrow>
          (case favorites_try E d t of
             Inl e \<Rightarrow> favorites_catch e
           | Inr r \<Rightarrow> r))"

section \<open>Handlers whose \<open>catch\<close> answers only some errors\<close>

text \<open>
  A JavaScript error as the \<open>catch\<close> blocks inspect it: \<open>error.name\<close>, \<open>error.message\<close>
  and \<open>error.code\<close>.
\<close>

record jsError =
  err_name :: string
  err_message :: string
  err_code :: "int option"

text \<open>
  \<open>POST /sellACar\<close>. \<open>Car.create\<close> is the storage collaborator and a parameter;
  \<open>files\<close> is \<open>req.files\<close>, \<open>None\<close> when the upload middleware left it undefined, in which
  case \<open>req.files.map\<close> throws a \<open>TypeError\<close>. The fields of \<open>req.body\<close> are given as a
  car record whose \<open>images\<close> the handler replaces by the uploaded file names. The result
  is the response sent, \<open>None\<close> when the handler ends without sending one.
\<close>

definition sellACar_try ::
  "(car \<Rightarrow> jsError + car) \<Rightarrow> string list option \<Rightarrow> car \<Rightarrow> jsError + response" where
  "sellACar_try Car_create files reqBody =
     (case files of
        None \<Rightarrow>
          Inl \<lparr>err_name = ''TypeError'',
               err_message = ''Cannot read properties of undefined'',
               err_code = None\<rparr>
      | Some filenames \<Rightarrow>
          (case Car_create (reqBody\<lparr>images := filenames\<rparr>) of
             Inl e \<Rightarrow> Inl e
           | Inr newCar \<Rightarrow> Inr (res_json (MessageCar ''Ad created'' newCar))))"

definition sellACar_catch :: "jsError \<Rightarrow> response option" where
  "sellACar_catch error =
     (if err_name error = ''ValidationError''
      then Some (res_json (Message (err_message error)))
      else None)"

definition sellACar ::
  "(car \<Rightarrow> jsError + car) \<Rightarrow> string list option \<Rightarrow> car \<Rightarrow> response option" where
  "sellACar Car_create files reqBody =
     (case sellACar_try Car_create files reqBody of
        Inl error \<Rightarrow> sellACar_catch error
      | Inr r \<Rightarrow> Some r)"

text \<open>\<open>POST /signup\<close>, with \<open>User.findOne\<close> and \<open>User.create\<close> as parameters.\<close>

record signupBody =
  body_name :: string
  body_email :: string
  body_password :: string
  body_passwordConfirm :: string

definition signup_try ::
  "(string \<Rightarrow> jsError + user option) \<Rightarrow> (signupBody \<Rightarrow> jsError + user) \<Rightarrow>
   signupBody \<Rightarrow> jsError + response" where
  "signup_try User_findOne User_create b =
     (case User_findOne (body_email b) of
        Inl e \<Rightarrow> Inl e
      | Inr (Some userExists) \<Rightarrow>
          Inr (res_json (Message ''There is already an account with that email!''))
      | Inr None \<Rightarrow>
          (case User_create b of
             Inl e \<Rightarrow> Inl e
           | Inr newUser \<Rightarrow> Inr (res_json (MessageUser ''User signed up'' newUser))))"

definition signup_catch :: "jsError \<Rightarrow> response option" where
  "signup_catch error =
     (if err_name error = ''ValidationError''
      then Some (res_json (Message (err_message error)))
      else if err_code error = Some 11000
      then Some (res_json (Message ''That name is already taken!''))
      else None)"

definition signup ::
  "(string \<Rightarrow> jsError + user option) \<Rightarrow> (signupBody \<Rightarrow> jsError + user) \<Rightarrow>
   signupBody \<Rightarrow> response option" where
  "signup User_findOne User_create b =
     (case signup_try User_findOne User_create b of
        Inl error \<Rightarrow> signup_catch error
      | Inr r \<Rightarrow> Some r)"

section \<open>Session gate\<close>

datatype errorKind = NoSession | InvalidSession verificationError | IdentityGone | StorageFailure

text \<open>
  Modelled from the spec: the middleware \<open>isThereLoggedUser\<close> of \<open>./middlewares\<close> is not
  part of the sources. Section 4.2: extract the token from the session carrier; if absent
  reject with \<open>NoSession\<close>; any verification error rejects with \<open>InvalidSession\<close>, the
  sub-kind kept for diagnostics; on success look the identity up by the verified id and
  reject with \<open>IdentityGone\<close> if absent; otherwise admit with the resolved identity.
  Section 5: a failure of the store is \<open>StorageFailure\<close>. An id that the cast
  rejects names no identity.
\<close>

definition sessionGate :: "env \<Rightarrow> db \<Rightarrow> request \<Rightarrow> errorKind + user" where
  "sessionGate E d req =
     (case cookies_jwt req of
        None \<Rightarrow> Inl NoSession
      | Some t \<Rightarrow>
          (case verify E t (JWT_SECRET E) of
             Inl e \<Rightarrow> Inl (InvalidSession e)
           | Inr i \<Rightarrow>
               (case findById E d i of
                  Inl e \<Rightarrow> (if e = StorageError then Inl StorageFailure else Inl IdentityGone)
                | Inr None \<Rightarrow> Inl IdentityGone
                | Inr (Some u) \<Rightarrow> Inr u)))"

text \<open>
  A protected route \<open>app.METHOD(path, gate, handler)\<close>: the handler runs only when the
  gate admits the request, and then on the request with the identity attached.
\<close>

definition protected ::
  "(env \<Rightarrow> db \<Rightarrow> request \<Rightarrow> errorKind + user) \<Rightarrow> (env \<Rightarrow> db \<Rightarrow> request \<Rightarrow> 'a) \<Rightarrow>
   env \<Rightarrow> db \<Rightarrow> request \<Rightarrow> errorKind + 'a" where
  "protected gate handler E d req =
     (case gate E d req of
        Inl e \<Rightarrow> Inl e
      | Inr u \<Rightarrow> Inr (handler E d (req\<lparr>req_user := Some u\<rparr>)))"

section \<open>Predicates used in the statements\<close>

text \<open>
  A string is canonical for the cast when the cast, if it accepts the string, yields the
  identifier whose rendering is that string. The rendering of an identifier, as a client
  reads it from a response, is canonical.
\<close>

definition canonical :: "env \<Rightarrow> string \<Rightarrow> bool" where
  "canonical E s = (case castObjectId E s of None \<Rightarrow> True | Some i \<Rightarrow> toString i = s)"

definition favoritesDistinct :: "db \<Rightarrow> bool" where
  "favoritesDistinct d = (\<forall>k u. users d k = Some u \<longrightarrow> distinct (favorites u))"

section \<open>Example data\<close>

text \<open>
  An environment whose cast accepts every string as the rendering of an identifier, two
  users, and the requests built from them.
\<close>

definition example_env :: env where
  "example_env =
     \<lparr>castObjectId = (\<lambda>s. Some (ObjectId s)),
      mac = (\<lambda>k p. k @ ''/'' @ pl_id p),
      JWT_SECRET = ''secret'',
      JWT_EXPIRE_TIME = 604800,
      now = 1000,
      findFails = False,
      saveFails = False\<rparr>"

definition ann :: "objectId list \<Rightarrow> user" where
  "ann favs =
     \<lparr>user_id = ObjectId ''u1'', name = ''ann'', email = ''a@x.com'',
      password = Some ''p1'', passwordConfirm = Some ''p1'', favorites = favs\<rparr>"

definition bob :: "objectId list \<Rightarrow> user" where
  "bob favs =
     \<lparr>user_id = ObjectId ''u2'', name = ''bob'', email = ''b@x.com'',
      password = Some ''p2'', passwordConfirm = Some ''p2'', favorites = favs\<rparr>"

definition example_db :: "objectId list \<Rightarrow> db" where
  "example_db favs =
     \<lparr>users = [ObjectId ''u1'' \<mapsto> ann favs, ObjectId ''u2'' \<mapsto> bob []],
      cars = Map.empty\<rparr>"

definition example_req :: "token option \<Rightarrow> string \<Rightarrow> string \<Rightarrow> request" where
  "example_req tok uid cid =
     \<lparr>cookies_jwt = tok, params_carId = cid, body_userId = uid, req_user = None\<rparr>"

definition example_car :: car where
  "example_car =
     \<lparr>car_id = ObjectId ''c1'', car_model = ''Civic'', car_make = ''Honda'', year = 2024,
      color = ''red'', miles = None, fueltype = None, gearbox = None, city = None,
      price = 10000, images = [], armored = False, carOwnerEmail = Some ''a@x.com''\<rparr>"

definition example_signup :: signupBody where
  "example_signup =
     \<lparr>body_name = ''ann'', body_email = ''a@x.com'', body_password = ''p1'',
      body_passwordConfirm = ''p1''\<rparr>"

definition storage_down :: jsError where
  "storage_down =
     \<lparr>err_name = ''MongooseError'', err_message = ''buffering timed out'', err_code = None\<rparr>"

section \<open>A cast that accepts either case\<close>

text \<open>
  The cast of the storage library accepts a string of 24 hexadecimal digits in either
  case, and the rendering of the resulting \<open>ObjectId\<close> is in lower case. Every other
  string is rejected.
\<close>

definition hexDigit :: "char \<Rightarrow> bool" where
  "hexDigit c = (c \<in> set ''0123456789abcdefABCDEF'')"

definition lowerHex :: "char \<Rightarrow> char" where
  "lowerHex c =
     (if c = CHR ''A'' then CHR ''a'' else if c = CHR ''B'' then CHR ''b''
      else if c = CHR ''C'' then CHR ''c'' else if c = CHR ''D'' then CHR ''d''
      else if c = CHR ''E'' then CHR ''e'' else if c = CHR ''F'' then CHR ''f''
      else c)"

definition castHex24 :: "string \<Rightarrow> objectId option" where
  "castHex24 s =
     (if length s = 24 \<and> list_all hexDigit s then Some (ObjectId (map lowerHex s)) else None)"

definition hex_env :: env where
  "hex_env =
     \<lparr>castObjectId = castHex24,
      mac = (\<lambda>k p. k @ ''/'' @ pl_id p),
      JWT_SECRET = ''secret'',
      JWT_EXPIRE_TIME = 604800,
      now = 1000,
      findFails = False,
      saveFails = False\<rparr>"

definition carol :: "objectId list \<Rightarrow> user" where
  "carol favs =
     \<lparr>user_id = ObjectId ''64b7f0c2a1d3e4f5a6b7c801'', name = ''carol'',
      email = ''c@x.com'', password = Some ''p3'', passwordConfirm = Some ''p3'',
      favorites = favs\<rparr>"

definition hex_db :: "objectId list \<Rightarrow> db" where
  "hex_db favs =
     \<lparr>users = [ObjectId ''64b7f0c2a1d3e4f5a6b7c801'' \<mapsto> carol favs], cars = Map.empty\<rparr>"

section \<open>The in-memory toggle\<close>

lemma toString_eq_iff: "toString a = toString b \<longleftrightarrow> a = b"
  by (cases a; cases b) simp

lemma includes_str_toString: "includes_str favs (toString r) \<longleftrightarrow> r \<in> set favs"
  by (auto simp: includes_str_def toString_eq_iff image_iff)

lemma toggleFavorites_member:
  "r \<in> set favs \<Longrightarrow> toggleFavorites E favs (toString r) = Inr (filter (\<lambda>i. i \<noteq> r) favs)"
  by (simp add: toggleFavorites_def includes_str_toString toString_eq_iff)

lemma toggleFavorites_fresh:
  "r \<notin> set favs \<Longrightarrow> castObjectId E (toString r) = Some r \<Longrightarrow>
   toggleFavorites E favs (toString r) = Inr (favs @ [r])"
  by (simp add: toggleFavorites_def includes_str_toString)

lemma toggleFavorites_set:
  assumes "castObjectId E (toString r) = Some r"
  shows "\<exists>favs'. toggleFavorites E favs (toString r) = Inr favs'
           \<and> set favs' = (if r \<in> set favs then set favs - {r} else insert r (set favs))"
proof (cases "r \<in> set favs")
  case True
  then show ?thesis by (auto simp: toggleFavorites_member)
next
  case False
  with assms show ?thesis by (auto simp: toggleFavorites_fresh)
qed

lemma toggleFavorites_distinct:
  assumes "distinct favs" and "canonical E c" and "toggleFavorites E favs c = Inr favs'"
  shows "distinct favs'"
proof (cases "includes_str favs c")
  case True
  with assms show ?thesis by (auto simp: toggleFavorites_def)
next
  case False
  with assms(3) obtain i where i: "castObjectId E c = Some i" "favs' = favs @ [i]"
    by (auto simp: toggleFavorites_def split: option.splits)
  with assms(2) have "toString i = c" by (simp add: canonical_def)
  with False have "i \<notin> set favs" by (auto simp: includes_str_def)
  with assms(1) i show ?thesis by simp
qed

section \<open>The handler of \<open>PATCH /favoriteCar/:carId\<close>\<close>

lemma favoriteCar_saved:
  assumes "findById E d (body_userId req) = Inr (Some u)"
    and "toggleFavorites E (favorites u) (params_carId req) = Inr favs"
    and "\<not> saveFails E"
  shows "favoriteCar E d req =
           (res_json (MessageFavorites ''Car favorited'' favs),
            d\<lparr>users := (users d)(user_id u \<mapsto> u\<lparr>favorites := favs\<rparr>)\<rparr>)"
  using assms by (simp add: favoriteCar_def save_def)

lemma favoriteCar_toggled:
  assumes lookup: "findById E d (body_userId req) = Inr (Some u)"
    and carId: "params_carId req = toString r"
    and cast: "castObjectId E (toString r) = Some r"
    and ok: "\<not> saveFails E"
  shows "\<exists>favs. favoriteCar E d req =
             (res_json (MessageFavorites ''Car favorited'' favs),
              d\<lparr>users := (users d)(user_id u \<mapsto> u\<lparr>favorites := favs\<rparr>)\<rparr>)
           \<and> set favs = (if r \<in> set (favorites u) then set (favorites u) - {r}
                          else insert r (set (favorites u)))"
proof -
  from toggleFavorites_set [OF cast, of "favorites u"] obtain favs where
    t: "toggleFavorites E (favorites u) (params_carId req) = Inr favs"
    and s: "set favs = (if r \<in> set (favorites u) then set (favorites u) - {r}
                        else insert r (set (favorites u)))"
    unfolding carId by blast
  from favoriteCar_saved [OF lookup t ok] s show ?thesis by blast
qed

lemma favoriteCar_failure_keeps_db:
  "status (fst (favoriteCar E d req)) \<noteq> 200 \<Longrightarrow> snd (favoriteCar E d req) = d"
  by (auto simp: favoriteCar_def Let_def res_json_def split: sum.splits option.splits)

lemma findById_after_save:
  assumes "findById E d s = Inr (Some u)" and "castObjectId E s = Some (user_id u)"
  shows "findById E (d\<lparr>users := (users d)(user_id u \<mapsto> u')\<rparr>) s = Inr (Some u')"
  using assms by (simp add: findById_def split: if_splits)

text \<open>
  When the request names the resource by its rendering, the toggle is right
  (\<open>favoriteCar_toggled\<close>), and two successive requests restore the favorite set.
\<close>

lemma favoriteCar_twice_canonical:
  assumes lookup: "findById E d (body_userId req) = Inr (Some u)"
    and key: "castObjectId E (body_userId req) = Some (user_id u)"
    and carId: "params_carId req = toString r"
    and cast: "castObjectId E (toString r) = Some r"
    and ok: "\<not> saveFails E"
  shows "\<exists>resp1 d1 favs2 d2. favoriteCar E d req = (resp1, d1)
           \<and> favoriteCar E d1 req = (res_json (MessageFavorites ''Car favorited'' favs2), d2)
           \<and> users d2 (user_id u) = Some (u\<lparr>favorites := favs2\<rparr>)
           \<and> set favs2 = set (favorites u)"
proof -
  from favoriteCar_toggled [OF lookup carId cast ok] obtain favs1 where
    first: "favoriteCar E d req =
              (res_json (MessageFavorites ''Car favorited'' favs1),
               d\<lparr>users := (users d)(user_id u \<mapsto> u\<lparr>favorites := favs1\<rparr>)\<rparr>)"
    and set1: "set favs1 = (if r \<in> set (favorites u) then set (favorites u) - {r}
                            else insert r (set (favorites u)))"
    by blast
  let ?u1 = "u\<lparr>favorites := favs1\<rparr>"
  let ?d1 = "d\<lparr>users := (users d)(user_id u \<mapsto> ?u1)\<rparr>"
  have lookup1: "findById E ?d1 (body_userId req) = Inr (Some ?u1)"
    by (rule findById_after_save [OF lookup key])
  from favoriteCar_toggled [OF lookup1 carId cast ok] obtain favs2 where
    second: "favoriteCar E ?d1 req =
               (res_json (MessageFavorites ''Car favorited'' favs2),
                ?d1\<lparr>users := (users ?d1)(user_id ?u1 \<mapsto> ?u1\<lparr>favorites := favs2\<rparr>)\<rparr>)"
    and set2: "set favs2 = (if r \<in> set (favorites ?u1) then set (favorites ?u1) - {r}
                            else insert r (set (favorites ?u1)))"
    by blast
  have restored: "set favs2 = set (favorites u)"
    using set1 set2 by (auto split: if_splits)
  show ?thesis
    by (intro exI conjI, rule first, rule second, simp, rule restored)
qed

section \<open>Sequences of toggles\<close>

lemma favoriteCar_distinct:
  assumes inv: "favoritesDistinct d" and can: "canonical E (params_carId req)"
  shows "favoritesDistinct (snd (favoriteCar E d req))"
proof (cases "findById E d (body_userId req)")
  case (Inl e)
  with inv show ?thesis by (simp add: favoriteCar_def)
next
  case found: (Inr uo)
  show ?thesis
  proof (cases uo)
    case None
    with found inv show ?thesis by (simp add: favoriteCar_def)
  next
    case (Some u)
    with found have "\<exists>k. users d k = Some u"
      by (auto simp: findById_def split: if_splits option.splits)
    with inv have du: "distinct (favorites u)" by (auto simp: favoritesDistinct_def)
    show ?thesis
    proof (cases "toggleFavorites E (favorites u) (params_carId req)")
      case (Inl e)
      with found Some inv show ?thesis by (simp add: favoriteCar_def)
    next
      case (Inr favs)
      from toggleFavorites_distinct [OF du can Inr] have df: "distinct favs" .
      show ?thesis
      proof (cases "saveFails E")
        case True
        with found Some Inr inv show ?thesis
          by (simp add: favoriteCar_def save_def)
      next
        case False
        have "favoritesDistinct (d\<lparr>users := (users d)(user_id u \<mapsto> u\<lparr>favorites := favs\<rparr>)\<rparr>)"
          using inv df unfolding favoritesDistinct_def by (auto split: if_splits)
        with False found Some Inr show ?thesis
          by (simp add: favoriteCar_def save_def)
      qed
    qed
  qed
qed

lemma favoriteCarAll_distinct:
  "favoritesDistinct d \<Longrightarrow> \<forall>(E, req) \<in> set steps. canonical E (params_carId req) \<Longrightarrow>
   favoritesDistinct (favoriteCarAll d steps)"
proof (induction steps arbitrary: d)
  case Nil
  then show ?case by simp
next
  case (Cons a steps)
  obtain E req where a: "a = (E, req)" by (cases a)
  with Cons.prems have "canonical E (params_carId req)" by simp
  from favoriteCar_distinct [OF Cons.prems(1) this]
  have "favoritesDistinct (snd (favoriteCar E d req))" .
  with Cons.IH Cons.prems(2) a show ?case by simp
qed

section \<open>A favorite named in another spelling\<close>

lemma castHex24_lower:
  "castHex24 ''64b7f0c2a1d3e4f5a6b7c8d9'' = Some (ObjectId ''64b7f0c2a1d3e4f5a6b7c8d9'')"
  by (simp add: castHex24_def hexDigit_def lowerHex_def)

lemma castHex24_upper:
  "castHex24 ''64B7F0C2A1D3E4F5A6B7C8D9'' = Some (ObjectId ''64b7f0c2a1d3e4f5a6b7c8d9'')"
  by (simp add: castHex24_def hexDigit_def lowerHex_def)

lemma castHex24_user:
  "castHex24 ''64b7f0c2a1d3e4f5a6b7c801'' = Some (ObjectId ''64b7f0c2a1d3e4f5a6b7c801'')"
  by (simp add: castHex24_def hexDigit_def lowerHex_def)

lemma findById_carol:
  "findById hex_env (hex_db favs) ''64b7f0c2a1d3e4f5a6b7c801'' = Inr (Some (carol favs))"
  by (simp add: findById_def hex_env_def hex_db_def castHex24_user)

lemma favoriteCar_carol:
  assumes "toggleFavorites hex_env favs c = Inr favs'"
  shows "favoriteCar hex_env (hex_db favs) (example_req tok ''64b7f0c2a1d3e4f5a6b7c801'' c)
           = (res_json (MessageFavorites ''Car favorited'' favs'), hex_db favs')"
proof -
  have "favoriteCar hex_env (hex_db favs) (example_req tok ''64b7f0c2a1d3e4f5a6b7c801'' c)
          = (res_json (MessageFavorites ''Car favorited'' favs'),
             (hex_db favs)\<lparr>users := (users (hex_db favs))
                 (user_id (carol favs) \<mapsto> (carol favs)\<lparr>favorites := favs'\<rparr>)\<rparr>)"
  proof (rule favoriteCar_saved)
    show "findById hex_env (hex_db favs)
            (body_userId (example_req tok ''64b7f0c2a1d3e4f5a6b7c801'' c))
          = Inr (Some (carol favs))"
      by (simp add: example_req_def findById_carol)
    show "toggleFavorites hex_env (favorites (carol favs))
            (params_carId (example_req tok ''64b7f0c2a1d3e4f5a6b7c801'' c)) = Inr favs'"
      by (simp add: example_req_def carol_def assms)
    show "\<not> saveFails hex_env"
      by (simp add: hex_env_def)
  qed
  then show ?thesis by (simp add: hex_db_def carol_def)
qed

lemma toggle_lower_on_empty:
  "toggleFavorites hex_env [] ''64b7f0c2a1d3e4f5a6b7c8d9''
     = Inr [ObjectId ''64b7f0c2a1d3e4f5a6b7c8d9'']"
  by (simp add: toggleFavorites_def includes_str_def hex_env_def castHex24_lower)

lemma toggle_upper_on_empty:
  "toggleFavorites hex_env [] ''64B7F0C2A1D3E4F5A6B7C8D9''
     = Inr [ObjectId ''64b7f0c2a1d3e4f5a6b7c8d9'']"
  by (simp add: toggleFavorites_def includes_str_def hex_env_def castHex24_upper)

lemma toggle_upper_on_member:
  "toggleFavorites hex_env [ObjectId ''64b7f0c2a1d3e4f5a6b7c8d9''] ''64B7F0C2A1D3E4F5A6B7C8D9''
     = Inr [ObjectId ''64b7f0c2a1d3e4f5a6b7c8d9'', ObjectId ''64b7f0c2a1d3e4f5a6b7c8d9'']"
  by (simp add: toggleFavorites_def includes_str_def hex_env_def castHex24_upper)

text \<open>
  Claim C1. The claim asks that a toggle of a member removes it. Carol's favorites hold
  the car \<open>64b7...c8d9\<close>; the request names that car in upper case, which the cast maps to
  the same identifier. The membership test compares the raw string with the lower-case
  rendering and misses, so the identifier is pushed a second time: the response is 200
  with the identifier twice, persisted as returned, and the favorite set still holds it.
\<close>

theorem favoriteCar_member_pushed_again:
  "castObjectId hex_env ''64B7F0C2A1D3E4F5A6B7C8D9'' = Some (ObjectId ''64b7f0c2a1d3e4f5a6b7c8d9'')
   \<and> favoriteCar hex_env (hex_db [ObjectId ''64b7f0c2a1d3e4f5a6b7c8d9''])
       (example_req None ''64b7f0c2a1d3e4f5a6b7c801'' ''64B7F0C2A1D3E4F5A6B7C8D9'')
     = (res_json (MessageFavorites ''Car favorited''
                    [ObjectId ''64b7f0c2a1d3e4f5a6b7c8d9'', ObjectId ''64b7f0c2a1d3e4f5a6b7c8d9'']),
        hex_db [ObjectId ''64b7f0c2a1d3e4f5a6b7c8d9'', ObjectId ''64b7f0c2a1d3e4f5a6b7c8d9''])
   \<and> ObjectId ''64b7f0c2a1d3e4f5a6b7c8d9''
       \<in> set [ObjectId ''64b7f0c2a1d3e4f5a6b7c8d9'', ObjectId ''64b7f0c2a1d3e4f5a6b7c8d9'']"
proof (intro conjI)
  show "castObjectId hex_env ''64B7F0C2A1D3E4F5A6B7C8D9''
          = Some (ObjectId ''64b7f0c2a1d3e4f5a6b7c8d9'')"
    by (simp add: hex_env_def castHex24_upper)
  show "favoriteCar hex_env (hex_db [ObjectId ''64b7f0c2a1d3e4f5a6b7c8d9''])
          (example_req None ''64b7f0c2a1d3e4f5a6b7c801'' ''64B7F0C2A1D3E4F5A6B7C8D9'')
        = (res_json (MessageFavorites ''Car favorited''
                       [ObjectId ''64b7f0c2a1d3e4f5a6b7c8d9'',
                        ObjectId ''64b7f0c2a1d3e4f5a6b7c8d9'']),
           hex_db [ObjectId ''64b7f0c2a1d3e4f5a6b7c8d9'', ObjectId ''64b7f0c2a1d3e4f5a6b7c8d9''])"
    by (rule favoriteCar_carol [OF toggle_upper_on_member])
  show "ObjectId ''64b7f0c2a1d3e4f5a6b7c8d9''
          \<in> set [ObjectId ''64b7f0c2a1d3e4f5a6b7c8d9'', ObjectId ''64b7f0c2a1d3e4f5a6b7c8d9'']"
    by simp
qed

text \<open>
  Claim C2. The claim asks that two toggles of one resource id restore the favorite set.
  From Carol's empty favorites the same request, naming the car in upper case, is sent
  twice: the first adds the identifier, the second adds it again, and the favorite set
  ends as the singleton instead of the empty set.
\<close>

theorem favoriteCar_twice_not_restored:
  "favoriteCar hex_env (hex_db [])
       (example_req None ''64b7f0c2a1d3e4f5a6b7c801'' ''64B7F0C2A1D3E4F5A6B7C8D9'')
     = (res_json (MessageFavorites ''Car favorited'' [ObjectId ''64b7f0c2a1d3e4f5a6b7c8d9'']),
        hex_db [ObjectId ''64b7f0c2a1d3e4f5a6b7c8d9''])
   \<and> snd (favoriteCar hex_env
            (snd (favoriteCar hex_env (hex_db [])
                    (example_req None ''64b7f0c2a1d3e4f5a6b7c801'' ''64B7F0C2A1D3E4F5A6B7C8D9'')))
            (example_req None ''64b7f0c2a1d3e4f5a6b7c801'' ''64B7F0C2A1D3E4F5A6B7C8D9''))
     = hex_db [ObjectId ''64b7f0c2a1d3e4f5a6b7c8d9'', ObjectId ''64b7f0c2a1d3e4f5a6b7c8d9'']
   \<and> set [ObjectId ''64b7f0c2a1d3e4f5a6b7c8d9'', ObjectId ''64b7f0c2a1d3e4f5a6b7c8d9'']
       \<noteq> set []"
  by (simp only: favoriteCar_carol [OF toggle_upper_on_empty]
                 favoriteCar_carol [OF toggle_upper_on_member] snd_conv) simp

text \<open>
  Claim C3. The claim asks that no sequence of toggles from the empty set persists an id
  twice. Two requests for Carol name the same car, first in lower case and then in upper
  case: the persisted list holds the identifier twice.
\<close>

theorem favoriteCarAll_persists_duplicate:
  "favoriteCarAll (hex_db [])
     [(hex_env, example_req None ''64b7f0c2a1d3e4f5a6b7c801'' ''64b7f0c2a1d3e4f5a6b7c8d9''),
      (hex_env, example_req None ''64b7f0c2a1d3e4f5a6b7c801'' ''64B7F0C2A1D3E4F5A6B7C8D9'')]
     = hex_db [ObjectId ''64b7f0c2a1d3e4f5a6b7c8d9'', ObjectId ''64b7f0c2a1d3e4f5a6b7c8d9'']
   \<and> users (hex_db [ObjectId ''64b7f0c2a1d3e4f5a6b7c8d9'', ObjectId ''64b7f0c2a1d3e4f5a6b7c8d9''])
         (ObjectId ''64b7f0c2a1d3e4f5a6b7c801'')
     = Some (carol [ObjectId ''64b7f0c2a1d3e4f5a6b7c8d9'', ObjectId ''64b7f0c2a1d3e4f5a6b7c8d9''])
   \<and> \<not> distinct (favorites
         (carol [ObjectId ''64b7f0c2a1d3e4f5a6b7c8d9'', ObjectId ''64b7f0c2a1d3e4f5a6b7c8d9'']))"
proof (intro conjI)
  show "favoriteCarAll (hex_db [])
     [(hex_env, example_req None ''64b7f0c2a1d3e4f5a6b7c801'' ''64b7f0c2a1d3e4f5a6b7c8d9''),
      (hex_env, example_req None ''64b7f0c2a1d3e4f5a6b7c801'' ''64B7F0C2A1D3E4F5A6B7C8D9'')]
     = hex_db [ObjectId ''64b7f0c2a1d3e4f5a6b7c8d9'', ObjectId ''64b7f0c2a1d3e4f5a6b7c8d9'']"
    by (simp only: favoriteCarAll.simps favoriteCar_carol [OF toggle_lower_on_empty]
                   favoriteCar_carol [OF toggle_upper_on_member] snd_conv)
  show "users (hex_db [ObjectId ''64b7f0c2a1d3e4f5a6b7c8d9'',
                       ObjectId ''64b7f0c2a1d3e4f5a6b7c8d9''])
          (ObjectId ''64b7f0c2a1d3e4f5a6b7c801'')
        = Some (carol [ObjectId ''64b7f0c2a1d3e4f5a6b7c8d9'',
                       ObjectId ''64b7f0c2a1d3e4f5a6b7c8d9''])"
    by (simp add: hex_db_def)
  show "\<not> distinct (favorites
          (carol [ObjectId ''64b7f0c2a1d3e4f5a6b7c8d9'', ObjectId ''64b7f0c2a1d3e4f5a6b7c8d9'']))"
    by (simp add: carol_def)
qed

section \<open>Failure paths of the toggle\<close>




text \<open>
  Claim C5. When the save of the toggled document fails, the handler answers with the
  error response of status 500 and the database is unchanged.
\<close>

theorem favoriteCar_save_fails:
  assumes "findById E d (body_userId req) = Inr (Some u)"
    and "toggleFavorites E (favorites u) (params_carId req) = Inr favs"
    and "saveFails E"
  shows "favoriteCar E d req = (error500, d) \<and> status error500 = 500"
  using assms by (simp add: favoriteCar_def save_def error500_def res_status_json_def)

theorem favoriteCar_save_fails_witness:
  "favoriteCar (example_env\<lparr>saveFails := True\<rparr>) (example_db []) (example_req None ''u1'' ''r1'')
     = (error500, example_db [])
   \<and> status error500 = 500"
proof -
  have look: "findById (example_env\<lparr>saveFails := True\<rparr>) (example_db [])
                (body_userId (example_req None ''u1'' ''r1'')) = Inr (Some (ann []))"
    by (simp add: findById_def example_env_def example_db_def example_req_def)
  have tog: "toggleFavorites (example_env\<lparr>saveFails := True\<rparr>) (favorites (ann []))
               (params_carId (example_req None ''u1'' ''r1'')) = Inr [ObjectId ''r1'']"
    by (simp add: toggleFavorites_def includes_str_def example_env_def example_req_def ann_def)
  have fails: "saveFails (example_env\<lparr>saveFails := True\<rparr>)"
    by simp
  from favoriteCar_save_fails [OF look tog fails] show ?thesis .
qed

section \<open>Who may toggle whose favorites\<close>

lemma favoriteCar_reads_only_body_and_carId:
  "params_carId r1 = params_carId r2 \<Longrightarrow> body_userId r1 = body_userId r2 \<Longrightarrow>
   favoriteCar E d r1 = favoriteCar E d r2"
  by (simp add: favoriteCar_def)

text \<open>
  Claim C10. Whatever middleware guards the route, two admitted requests with the same
  body and the same \<open>carId\<close> produce the same response and the same database, whichever
  identities their sessions name: the result is that of the handler on the body and the
  route parameter alone.
\<close>

theorem favoriteCar_any_session:
  assumes "gate E d r1 = Inr u1" and "gate E d r2 = Inr u2"
    and "params_carId r1 = params_carId r2" and "body_userId r1 = body_userId r2"
  shows "protected gate favoriteCar E d r1 = protected gate favoriteCar E d r2
       \<and> protected gate favoriteCar E d r1 =
           Inr (favoriteCar E d \<lparr>cookies_jwt = None, params_carId = params_carId r1,
                                  body_userId = body_userId r1, req_user = None\<rparr>)"
  using assms by (simp add: protected_def favoriteCar_def)

text \<open>
  Ann's session and Bob's session, each with Bob's id in the body: both requests are
  admitted by the session gate and both put \<open>r1\<close> into Bob's favorites.
\<close>

theorem favoriteCar_any_session_witness:
  "protected sessionGate favoriteCar example_env (example_db [])
     (example_req (Some (login_sign example_env (ann []))) ''u2'' ''r1'')
   = protected sessionGate favoriteCar example_env (example_db [])
       (example_req (Some (login_sign example_env (bob []))) ''u2'' ''r1'')
   \<and> protected sessionGate favoriteCar example_env (example_db [])
       (example_req (Some (login_sign example_env (ann []))) ''u2'' ''r1'')
     = Inr (res_json (MessageFavorites ''Car favorited'' [ObjectId ''r1'']),
            (example_db [])\<lparr>users := (users (example_db []))
                                        (ObjectId ''u2'' \<mapsto> bob [ObjectId ''r1''])\<rparr>)"
proof -
  let ?ra = "example_req (Some (login_sign example_env (ann []))) ''u2'' ''r1''"
  let ?rb = "example_req (Some (login_sign example_env (bob []))) ''u2'' ''r1''"
  have ga: "sessionGate example_env (example_db []) ?ra = Inr (ann [])"
    by (simp add: sessionGate_def verify_def login_sign_def issue_def findById_def Let_def
                  example_env_def example_db_def example_req_def ann_def bob_def)
  have gb: "sessionGate example_env (example_db []) ?rb = Inr (bob [])"
    by (simp add: sessionGate_def verify_def login_sign_def issue_def findById_def Let_def
                  example_env_def example_db_def example_req_def ann_def bob_def)
  have car: "params_carId ?ra = params_carId ?rb" and usr: "body_userId ?ra = body_userId ?rb"
    by (simp_all add: example_req_def)
  have run: "favoriteCar example_env (example_db [])
               \<lparr>cookies_jwt = None, params_carId = params_carId ?ra,
                  body_userId = body_userId ?ra, req_user = None\<rparr>
             = (res_json (MessageFavorites ''Car favorited'' [ObjectId ''r1'']),
                (example_db [])\<lparr>users := (users (example_db []))
                                            (ObjectId ''u2'' \<mapsto> bob [ObjectId ''r1''])\<rparr>)"
    by (simp add: favoriteCar_def findById_def toggleFavorites_def includes_str_def save_def
                  example_env_def example_db_def example_req_def bob_def Let_def)
  from favoriteCar_any_session [of sessionGate example_env "example_db []" ?ra "ann []" ?rb
      "bob []", OF ga gb car usr] show ?thesis
    unfolding run .
qed

section \<open>Token round trip\<close>

text \<open>
  Claim C7. A token issued for an identity id with a key and a lifetime verifies, with
  the same key and the same signature function, to that identity id at every instant
  before its expiry; so it does immediately after issuing when the lifetime is positive.
\<close>

theorem verify_issue:
  assumes "mac E' = mac E" and "now E' < now E + ttl"
  shows "verify E' (issue E identityId secretKey ttl) secretKey = Inr identityId"
  using assms by (simp add: verify_def issue_def Let_def)

theorem verify_issue_witness:
  "verify example_env (issue example_env ''u1'' ''secret'' 604800) ''secret'' = Inr ''u1''"
proof -
  have same: "mac example_env = mac example_env"
    by simp
  have early: "now example_env < now example_env + 604800"
    by simp
  from verify_issue [OF same early] show ?thesis .
qed

lemma jwt_verify_login_sign:
  assumes "mac E' = mac E" and "JWT_SECRET E' = JWT_SECRET E"
    and "now E' < now E + JWT_EXPIRE_TIME E"
  shows "jwt_verify E' (login_sign E u) = Inr (toString (user_id u))"
  using assms by (simp add: jwt_verify_def login_sign_def verify_def issue_def Let_def)

section \<open>The session gate\<close>

text \<open>
  Claim C6. On a protected route the gate rejects a request with no token with
  \<open>NoSession\<close>, one whose token fails verification with \<open>InvalidSession\<close>, and one whose
  verified token names no stored identity with \<open>IdentityGone\<close>; in each case the result
  does not depend on the handler, which is not run. A request that reaches the handler
  carries a verified token naming a stored identity.
\<close>

theorem gate_rejects:
  "(cookies_jwt req = None \<longrightarrow> protected sessionGate h E d req = Inl NoSession)
   \<and> (\<forall>t e. cookies_jwt req = Some t \<longrightarrow> verify E t (JWT_SECRET E) = Inl e \<longrightarrow>
          protected sessionGate h E d req = Inl (InvalidSession e))
   \<and> (\<forall>t i. cookies_jwt req = Some t \<longrightarrow> verify E t (JWT_SECRET E) = Inr i \<longrightarrow>
          findById E d i = Inr None \<longrightarrow> protected sessionGate h E d req = Inl IdentityGone)
   \<and> (\<forall>x. protected sessionGate h E d req = Inr x \<longrightarrow>
          (\<exists>t i u. cookies_jwt req = Some t \<and> verify E t (JWT_SECRET E) = Inr i
                   \<and> findById E d i = Inr (Some u) \<and> x = h E d (req\<lparr>req_user := Some u\<rparr>)))"
  by (auto simp: protected_def sessionGate_def split: option.splits sum.splits if_splits)

text \<open>
  No cookie; an unparsable token, a forged signature and an expired token; a token for an
  identity that is not stored; and the token of a stored identity, which is admitted.
\<close>

theorem gate_rejects_witness:
  "protected sessionGate getUser example_env (example_db []) (example_req None [] [])
     = Inl NoSession
   \<and> protected sessionGate getUser example_env (example_db [])
       (example_req (Some (Unparsable ''abc'')) [] []) = Inl (InvalidSession Malformed)
   \<and> protected sessionGate getUser example_env (example_db [])
       (example_req (Some (Signed \<lparr>pl_id = ''u1'', pl_exp = 5000\<rparr> ''forged'')) [] [])
     = Inl (InvalidSession BadSignature)
   \<and> protected sessionGate getUser example_env (example_db [])
       (example_req (Some (issue example_env ''u1'' ''secret'' (- 1))) [] [])
     = Inl (InvalidSession Expired)
   \<and> protected sessionGate getUser example_env (example_db [])
       (example_req (Some (issue example_env ''u9'' ''secret'' 604800)) [] [])
     = Inl IdentityGone
   \<and> (\<exists>t i u. cookies_jwt (example_req (Some (login_sign example_env (ann []))) [] []) = Some t
        \<and> verify example_env t (JWT_SECRET example_env) = Inr i
        \<and> findById example_env (example_db []) i = Inr (Some u)
        \<and> res_json (CurrentUser (ann [])) =
            getUser example_env (example_db [])
              ((example_req (Some (login_sign example_env (ann []))) [] [])
                 \<lparr>req_user := Some u\<rparr>))"
proof -
  note ev = verify_def issue_def login_sign_def findById_def Let_def
    example_env_def example_db_def example_req_def ann_def
  have c0: "cookies_jwt (example_req tok [] []) = tok" for tok
    by (simp add: example_req_def)
  have v1: "verify example_env (Unparsable ''abc'') (JWT_SECRET example_env) = Inl Malformed"
    by (simp add: ev)
  have v2: "verify example_env (Signed \<lparr>pl_id = ''u1'', pl_exp = 5000\<rparr> ''forged'')
              (JWT_SECRET example_env) = Inl BadSignature"
    by (simp add: ev)
  have v3: "verify example_env (issue example_env ''u1'' ''secret'' (- 1))
              (JWT_SECRET example_env) = Inl Expired"
    by (simp add: ev)
  have v4: "verify example_env (issue example_env ''u9'' ''secret'' 604800)
              (JWT_SECRET example_env) = Inr ''u9''"
    by (simp add: ev)
  have f4: "findById example_env (example_db []) ''u9'' = Inr None"
    by (simp add: ev)
  have adm: "protected sessionGate getUser example_env (example_db [])
               (example_req (Some (login_sign example_env (ann []))) [] [])
             = Inr (res_json (CurrentUser (ann [])))"
    by (simp add: protected_def sessionGate_def getUser_def getUser_try_def jwt_verify_def ev)
  have a: "protected sessionGate getUser example_env (example_db []) (example_req None [] [])
             = Inl NoSession"
    by (rule gate_rejects [THEN conjunct1, rule_format, OF c0])
  have b: "protected sessionGate getUser example_env (example_db [])
             (example_req (Some (Unparsable ''abc'')) [] []) = Inl (InvalidSession Malformed)"
    by (rule gate_rejects [THEN conjunct2, THEN conjunct1, rule_format, OF c0 v1])
  have c: "protected sessionGate getUser example_env (example_db [])
             (example_req (Some (Signed \<lparr>pl_id = ''u1'', pl_exp = 5000\<rparr> ''forged'')) [] [])
           = Inl (InvalidSession BadSignature)"
    by (rule gate_rejects [THEN conjunct2, THEN conjunct1, rule_format, OF c0 v2])
  have d: "protected sessionGate getUser example_env (example_db [])
             (example_req (Some (issue example_env ''u1'' ''secret'' (- 1))) [] [])
           = Inl (InvalidSession Expired)"
    by (rule gate_rejects [THEN conjunct2, THEN conjunct1, rule_format, OF c0 v3])
  have e: "protected sessionGate getUser example_env (example_db [])
             (example_req (Some (issue example_env ''u9'' ''secret'' 604800)) [] [])
           = Inl IdentityGone"
    by (rule gate_rejects [THEN conjunct2, THEN conjunct2, THEN conjunct1, rule_format,
                           OF c0 v4 f4])
  have f: "\<exists>t i u. cookies_jwt (example_req (Some (login_sign example_env (ann []))) [] []) = Some t
        \<and> verify example_env t (JWT_SECRET example_env) = Inr i
        \<and> findById example_env (example_db []) i = Inr (Some u)
        \<and> res_json (CurrentUser (ann [])) =
            getUser example_env (example_db [])
              ((example_req (Some (login_sign example_env (ann []))) [] [])
                 \<lparr>req_user := Some u\<rparr>)"
    by (rule gate_rejects [THEN conjunct2, THEN conjunct2, THEN conjunct2, rule_format, OF adm])
  from a b c d e f show ?thesis by blast
qed

text \<open>
  The handlers of \<open>GET /getUser\<close> and \<open>GET /favorites\<close> repeat the three checks themselves
  and answer with a message in each case.
\<close>

lemma getUser_rejects:
  "cookies_jwt req = None \<Longrightarrow> getUser E d req = res_json (Message ''Not authenticated'')"
  "cookies_jwt req = Some t \<Longrightarrow> verify E t (JWT_SECRET E) = Inl e \<Longrightarrow>
     getUser E d req = res_status_json 401 (Message ''Invalid or expired token'')"
  "cookies_jwt req = Some t \<Longrightarrow> verify E t (JWT_SECRET E) = Inr i \<Longrightarrow>
   findById E d i = Inr None \<Longrightarrow>
     getUser E d req =
       res_status_json 404 (Message ''The user belonging to this token no longer exists'')"
  by (simp_all add: getUser_def getUser_try_def jwt_verify_def)

lemma favoritesHandler_rejects:
  "cookies_jwt req = None \<Longrightarrow>
     favoritesHandler E d req = res_json (Message ''JWT must be provided. Please log in.'')"
  "cookies_jwt req = Some t \<Longrightarrow> verify E t (JWT_SECRET E) = Inl e \<Longrightarrow>
     favoritesHandler E d req = res_status_json 401 (Message ''Invalid token'')"
  "cookies_jwt req = Some t \<Longrightarrow> verify E t (JWT_SECRET E) = Inr i \<Longrightarrow>
   findById E d i = Inr None \<Longrightarrow>
     favoritesHandler E d req = res_status_json 401 (Message ''User not found'')"
  by (simp_all add: favoritesHandler_def favorites_try_def favorites_first_fetch_def
                    jwt_verify_def)

section \<open>Requests that get no response\<close>

lemma sellACar_unanswered_iff:
  "sellACar Car_create files reqBody = None \<longleftrightarrow>
   (\<exists>e. sellACar_try Car_create files reqBody = Inl e \<and> err_name e \<noteq> ''ValidationError'')"
  by (auto simp: sellACar_def sellACar_catch_def split: sum.splits)

lemma signup_unanswered_iff:
  "signup User_findOne User_create b = None \<longleftrightarrow>
   (\<exists>e. signup_try User_findOne User_create b = Inl e
        \<and> err_name e \<noteq> ''ValidationError'' \<and> err_code e \<noteq> Some 11000)"
  by (auto simp: signup_def signup_catch_def split: sum.splits)

lemma favoriteCar_always_answers: "\<exists>r d'. favoriteCar E d req = (r, d')"
  by (cases "favoriteCar E d req") simp

text \<open>
  Claim C8. The claim asks for a response on every failure path. In \<open>POST /sellACar\<close> and
  \<open>POST /signup\<close> an error of the storage that is neither a validation error nor a
  duplicate key ends the handler with no response sent; so does an upload that left
  \<open>req.files\<close> undefined.
\<close>

theorem sellACar_signup_unanswered:
  "sellACar (\<lambda>c. Inl storage_down) (Some [''1700000000000.png'']) example_car = None
   \<and> sellACar (\<lambda>c. Inr c) None example_car = None
   \<and> signup (\<lambda>e. Inr None) (\<lambda>b. Inl storage_down) example_signup = None
   \<and> signup (\<lambda>e. Inl storage_down) (\<lambda>b. Inl storage_down) example_signup = None"
  by (simp add: sellACar_def sellACar_try_def sellACar_catch_def signup_def signup_try_def
                signup_catch_def storage_down_def)

section \<open>Where the password is deselected\<close>

lemma getUser_returns_stored_document:
  assumes "getUser E d req = res_json (CurrentUser u)"
  shows "\<exists>k. users d k = Some u"
  using assms
  by (auto simp: getUser_def getUser_try_def findById_def res_json_def res_status_json_def
           split: option.splits sum.splits if_splits)

lemma favorites_first_fetch_deselects:
  "favorites_first_fetch E d s = Inr (Some u) \<Longrightarrow> password u = None"
  by (auto simp: favorites_first_fetch_def select_minus_password_def split: sum.splits)

lemma favorites_refetch_whole_document:
  "favorites_refetch E d i = Inr (Some u) \<Longrightarrow> users d i = Some u"
  by (simp add: favorites_refetch_def split: if_splits)

lemma favoritesHandler_sends_no_user:
  "body (favoritesHandler E d req) \<noteq> CurrentUser u"
proof (cases "cookies_jwt req")
  case None
  then show ?thesis by (simp add: favoritesHandler_def res_json_def)
next
  case (Some t)
  show ?thesis
  proof (cases "favorites_try E d t")
    case (Inl e)
    with Some show ?thesis
      by (cases e) (simp_all add: favoritesHandler_def res_status_json_def)
  next
    case (Inr r)
    then have "body r \<noteq> CurrentUser u"
      by (auto simp: favorites_try_def res_json_def res_status_json_def
               split: sum.splits option.splits)
    with Some Inr show ?thesis by (simp add: favoritesHandler_def)
  qed
qed

text \<open>
  Claim C9. The claim places the exclusion of the password in the fetch of
  \<open>GET /getUser\<close>. That fetch has no field selection: with Ann's session the response is
  Ann's stored document, password included. The exclusion is in the first fetch of
  \<open>GET /favorites\<close>; its second fetch reads the whole document, and its response carries
  the favorites only.
\<close>

theorem getUser_returns_password:
  "getUser example_env (example_db [])
     (example_req (Some (login_sign example_env (ann []))) [] [])
     = res_json (CurrentUser (ann []))
   \<and> password (ann []) = Some ''p1''
   \<and> favorites_first_fetch example_env (example_db []) ''u1''
     = Inr (Some ((ann [])\<lparr>password := None\<rparr>))
   \<and> favorites_refetch example_env (example_db []) (ObjectId ''u1'') = Inr (Some (ann []))
   \<and> favoritesHandler example_env (example_db [])
       (example_req (Some (login_sign example_env (ann []))) [] [])
     = res_json (FavoriteCars [])"
  by (simp add: getUser_def getUser_try_def jwt_verify_def verify_def login_sign_def issue_def
                findById_def favorites_first_fetch_def favorites_refetch_def
                favoritesHandler_def favorites_try_def populate_def select_minus_password_def
                Let_def
                example_env_def example_db_def example_req_def ann_def)

end
